theory Spec2Isabelle
  imports Main "HOL-Library.Word"
begin

unbundle bit_operations_syntax

section \<open>The swap server client of loop\<close>

text \<open>
  A shallow embedding of \<^verbatim>\<open>swap_server_client.go\<close>. Every Go function
  returning \<^verbatim>\<open>(*T, error)\<close> is a function into a pair
  \<open>'t option \<times> error option\<close>: \<open>None\<close> is the nil pointer, respectively the nil
  error. The calls that leave the file (the generated RPC stubs, \<^verbatim>\<open>grpc.Dial\<close>,
  \<^verbatim>\<open>credentials.NewClientTLSFromFile\<close>) are parameters; the library functions
  whose result decides a branch or an argument (\<^verbatim>\<open>hex.DecodeString\<close>,
  \<^verbatim>\<open>btcec.ParsePubKey\<close>, \<^verbatim>\<open>context.WithTimeout\<close>) are written out. The
  clock is state: an operation is called at an instant and returns at an instant.
\<close>

subsection \<open>Primitive types\<close>

type_synonym byte = "8 word"
type_synonym uint64 = "64 word"
type_synonym int64 = "64 word"
type_synonym int32 = "32 word"

text \<open>
  \<^verbatim>\<open>btcutil.Amount\<close> is an \<^verbatim>\<open>int64\<close>; the conversions
  \<^verbatim>\<open>uint64(amt)\<close> and \<^verbatim>\<open>btcutil.Amount(x)\<close> keep the 64 bits and only
  change how they are read, so both are the identity on \<open>64 word\<close>.
  \<^verbatim>\<open>lntypes.Hash\<close> is \<^verbatim>\<open>[32]byte\<close>. A \<^verbatim>\<open>time.Time\<close> is
  represented by the value its \<^verbatim>\<open>Unix()\<close> method returns.
\<close>

type_synonym Amount = int64
type_synonym Hash = "byte list"

datatype Time = Time (Unix: int64)

subsection \<open>encoding/hex\<close>

datatype hex_error = ErrLength | InvalidByteError char

definition fromHexChar :: "char \<Rightarrow> byte option" where
  "fromHexChar c =
     (let n = (of_char c :: nat) in
      if 48 \<le> n \<and> n \<le> 57 then Some (of_nat (n - 48))
      else if 97 \<le> n \<and> n \<le> 102 then Some (of_nat (n - 97 + 10))
      else if 65 \<le> n \<and> n \<le> 70 then Some (of_nat (n - 65 + 10))
      else None)"

text \<open>
  \<^verbatim>\<open>hex.DecodeString\<close>: two characters make one byte, the first bad character is
  reported where it stands, and an odd length is reported after the complete pairs.
\<close>

fun DecodeString :: "string \<Rightarrow> hex_error + byte list" where
  "DecodeString [] = Inr []"
| "DecodeString [c] =
     (case fromHexChar c of
        None \<Rightarrow> Inl (InvalidByteError c)
      | Some a \<Rightarrow> Inl ErrLength)"
| "DecodeString (c # d # s) =
     (case fromHexChar c of
        None \<Rightarrow> Inl (InvalidByteError c)
      | Some a \<Rightarrow>
          (case fromHexChar d of
             None \<Rightarrow> Inl (InvalidByteError d)
           | Some b \<Rightarrow>
               (case DecodeString s of
                  Inl e \<Rightarrow> Inl e
                | Inr bs \<Rightarrow> Inr ((push_bit 4 a OR b) # bs))))"

text \<open>
  \<^verbatim>\<open>hex.EncodeToString\<close>, which the file does not call: the encoding that
  \<^verbatim>\<open>DecodeString\<close> inverts.
\<close>

definition hextable :: string where
  "hextable = ''0123456789abcdef''"

fun EncodeToString :: "byte list \<Rightarrow> string" where
  "EncodeToString [] = []"
| "EncodeToString (v # src) =
     hextable ! unat (drop_bit 4 v) # hextable ! unat (v AND 0x0f) # EncodeToString src"

subsection \<open>btcec: parsing a public key on secp256k1\<close>

text \<open>
  \<^verbatim>\<open>btcec.ParsePubKey(pubKeyStr, btcec.S256())\<close> with the curve's parameters.
  The \<^verbatim>\<open>big.Int\<close> values are \<open>int\<close>; an error of the package is the text of
  its message.
\<close>

definition S256_P :: int where
  "S256_P = 2 ^ 256 - 2 ^ 32 - 977"

definition S256_B :: int where
  "S256_B = 7"

definition S256_QPlus1Div4 :: int where
  "S256_QPlus1Div4 = (S256_P + 1) div 4"

definition PubKeyBytesLenCompressed :: nat where
  "PubKeyBytesLenCompressed = 33"

definition PubKeyBytesLenUncompressed :: nat where
  "PubKeyBytesLenUncompressed = 65"

definition pubkeyCompressed :: byte where
  "pubkeyCompressed = 0x2"

definition pubkeyUncompressed :: byte where
  "pubkeyUncompressed = 0x4"

definition pubkeyHybrid :: byte where
  "pubkeyHybrid = 0x6"

record PublicKey =
  X :: int
  Y :: int

text \<open>\<^verbatim>\<open>new(big.Int).SetBytes(buf)\<close>: the bytes read as a big-endian number.\<close>

definition SetBytes :: "byte list \<Rightarrow> int" where
  "SetBytes buf = foldl (\<lambda>a b. a * 256 + uint b) 0 buf"

text \<open>The formatting verb \<^verbatim>\<open>%d\<close> on a number that is not negative.\<close>

fun fmt_d :: "nat \<Rightarrow> string" where
  "fmt_d n =
     (if n < 10 then [''0123456789'' ! n]
      else fmt_d (n div 10) @ [''0123456789'' ! (n mod 10)])"

declare fmt_d.simps [simp del]

text \<open>
  \<^verbatim>\<open>new(big.Int).Exp(x, y, m)\<close> for a positive modulus: \<open>x\<close> to the power \<open>y\<close>
  modulo \<open>m\<close>, by squaring.
\<close>

definition sqmul :: "int \<Rightarrow> bool \<Rightarrow> int \<Rightarrow> int \<Rightarrow> int" where
  "sqmul h b x m = (if b then h * h mod m * x mod m else h * h mod m)"

fun Exp :: "int \<Rightarrow> int \<Rightarrow> int \<Rightarrow> int" where
  "Exp x y m =
     (if y \<le> 0 then 1 mod m
      else sqmul (Exp x (y div 2) m) (odd y) x m)"

declare Exp.simps [simp del]

definition isOdd :: "int \<Rightarrow> bool" where
  "isOdd a = odd a"

definition decompressPoint :: "int \<Rightarrow> bool \<Rightarrow> string + int" where
  "decompressPoint x ybit =
     (let x3 = (x * x * x + S256_B) mod S256_P;
          y0 = Exp x3 S256_QPlus1Div4 S256_P;
          y = (if ybit \<noteq> isOdd y0 then S256_P - y0 else y0)
      in if y * y mod S256_P \<noteq> x3 then Inl ''invalid square root''
         else if ybit \<noteq> isOdd y then Inl ''ybit doesn't match oddness''
         else Inr y)"

definition IsOnCurve :: "int \<Rightarrow> int \<Rightarrow> bool" where
  "IsOnCurve x y = (y * y mod S256_P = (x * x * x + 7) mod S256_P)"

text \<open>
  \<^verbatim>\<open>ParsePubKey\<close>. In the version of the package the program is built with, the
  tests of the coordinates against the field prime and the test of the curve equation
  stand in the case of the 65-byte key; a compressed key of 33 bytes is checked by
  \<^verbatim>\<open>decompressPoint\<close> alone.
\<close>

definition ParsePubKey :: "byte list \<Rightarrow> string + PublicKey" where
  "ParsePubKey pubKeyStr =
     (if length pubKeyStr = 0 then Inl ''pubkey string is empty''
      else
        (let ybit = (hd pubKeyStr AND 0x1 = 0x1);
             format = hd pubKeyStr AND NOT 0x1
         in if length pubKeyStr = PubKeyBytesLenUncompressed then
              (if format \<noteq> pubkeyUncompressed \<and> format \<noteq> pubkeyHybrid then
                 Inl (''invalid magic in pubkey str: '' @ fmt_d (unat (hd pubKeyStr)))
               else
                 (let x = SetBytes (take 32 (drop 1 pubKeyStr));
                      y = SetBytes (drop 33 pubKeyStr)
                  in if format = pubkeyHybrid \<and> ybit \<noteq> isOdd y then
                       Inl ''ybit doesn't match oddness''
                     else if x \<ge> S256_P then Inl ''pubkey X parameter is >= to P''
                     else if y \<ge> S256_P then Inl ''pubkey Y parameter is >= to P''
                     else if \<not> IsOnCurve x y then Inl ''pubkey isn't on secp256k1 curve''
                     else Inr \<lparr>X = x, Y = y\<rparr>))
            else if length pubKeyStr = PubKeyBytesLenCompressed then
              (if format \<noteq> pubkeyCompressed then
                 Inl (''invalid magic in compressed pubkey string: '' @
                      fmt_d (unat (hd pubKeyStr)))
               else
                 (let x = SetBytes (take 32 (drop 1 pubKeyStr))
                  in case decompressPoint x ybit of
                       Inl e \<Rightarrow> Inl e
                     | Inr y \<Rightarrow> Inr \<lparr>X = x, Y = y\<rparr>))
            else Inl (''invalid pub key length '' @ fmt_d (length pubKeyStr))))"

subsection \<open>Wire messages (package looprpc) and domain values\<close>

datatype ServerLoopOutTermsRequest = ServerLoopOutTermsRequest

datatype ServerLoopInTermsRequest = ServerLoopInTermsRequest

record ServerLoopOutTerms =
  MinSwapAmount :: uint64
  MaxSwapAmount :: uint64

record ServerLoopInTerms =
  MinSwapAmount :: uint64
  MaxSwapAmount :: uint64

record ServerLoopOutQuoteRequest =
  Amt :: uint64
  SwapPublicationDeadline :: int64

record ServerLoopOutQuote =
  SwapPaymentDest :: string
  SwapFee :: uint64
  PrepayAmt :: uint64
  CltvDelta :: int32

record ServerLoopInQuoteRequest =
  Amt :: uint64

record ServerLoopInQuoteResponse =
  SwapFee :: uint64
  CltvDelta :: int32

record ServerLoopOutRequest =
  SwapHash :: "byte list"
  Amt :: uint64
  ReceiverKey :: "byte list"
  SwapPublicationDeadline :: int64

record ServerLoopOutResponse =
  SwapInvoice :: string
  PrepayInvoice :: string
  SenderKey :: "byte list"
  Expiry :: int32

record ServerLoopInRequest =
  SwapHash :: "byte list"
  Amt :: uint64
  SenderKey :: "byte list"
  SwapInvoice :: string

record ServerLoopInResponse =
  ReceiverKey :: "byte list"
  Expiry :: int32

record LoopOutTerms =
  MinSwapAmount :: Amount
  MaxSwapAmount :: Amount

record LoopInTerms =
  MinSwapAmount :: Amount
  MaxSwapAmount :: Amount

record LoopOutQuote =
  PrepayAmount :: Amount
  SwapFee :: Amount
  CltvDelta :: int32
  SwapPaymentDest :: "byte list"

record LoopInQuote =
  SwapFee :: Amount
  CltvDelta :: int32

record newLoopOutResponse =
  swapInvoice :: string
  prepayInvoice :: string
  senderKey :: "byte list"
  expiry :: int32

record newLoopInResponse =
  receiverKey :: "byte list"
  expiry :: int32

subsection \<open>Errors\<close>

text \<open>
  A Go error is an opaque value with a message. The constructors keep apart the places
  of the file where an error is made or handed on:
  \<^item> \<open>RemoteCallError e\<close>: the error \<open>e\<close> of an RPC stub, returned as it is;
  \<^item> \<open>DecodeError e\<close>: the error of \<^verbatim>\<open>hex.DecodeString\<close>, returned as it is;
  \<^item> \<open>InvalidPaymentDestinationError m\<close>: \<^verbatim>\<open>errors.New(m)\<close> after the length check;
  \<^item> \<open>InvalidServerKeyError m\<close>: \<^verbatim>\<open>fmt.Errorf("invalid sender key: %v", err)\<close>,
    with \<open>m\<close> the formatted message;
  \<^item> \<open>CertificateLoadError e\<close>: the error of \<^verbatim>\<open>credentials.NewClientTLSFromFile\<close>,
    returned as it is;
  \<^item> \<open>ChannelEstablishmentError m\<close>:
    \<^verbatim>\<open>fmt.Errorf("unable to connect to RPC server: %v", err)\<close>, with \<open>m\<close> the
    formatted message.
  An error that comes from outside the file is represented by its message.
\<close>

datatype error =
    RemoteCallError string
  | DecodeError hex_error
  | InvalidPaymentDestinationError string
  | InvalidServerKeyError string
  | CertificateLoadError string
  | ChannelEstablishmentError string

subsection \<open>Contexts and the clock\<close>

text \<open>
  An instant of the clock and a duration are numbers of nanoseconds. Of a
  \<^verbatim>\<open>context.Context\<close> the model keeps what \<^verbatim>\<open>Deadline()\<close> returns: the
  deadline, if one is set. \<^verbatim>\<open>context.WithDeadline(parent, d)\<close> keeps the parent's
  deadline when that is before \<open>d\<close> and sets \<open>d\<close> otherwise;
  \<^verbatim>\<open>context.WithTimeout(parent, timeout)\<close> is
  \<^verbatim>\<open>WithDeadline(parent, time.Now().Add(timeout))\<close>, and the instant that
  \<^verbatim>\<open>time.Now()\<close> reads is the argument \<open>now\<close>. The cancel function that comes with
  the new context only releases it and is left out.
\<close>

record Context =
  Deadline :: "int option"

definition Background :: Context where
  "Background = \<lparr>Deadline = None\<rparr>"

definition WithDeadline :: "Context \<Rightarrow> int \<Rightarrow> Context" where
  "WithDeadline parent d =
     (case Deadline parent of
        Some cur \<Rightarrow> if cur < d then parent else parent\<lparr>Deadline := Some d\<rparr>
      | None \<Rightarrow> parent\<lparr>Deadline := Some d\<rparr>)"

definition WithTimeout :: "Context \<Rightarrow> int \<Rightarrow> int \<Rightarrow> Context" where
  "WithTimeout parent timeout now = WithDeadline parent (now + timeout)"

subsection \<open>The client\<close>

text \<open>
  The interface \<^verbatim>\<open>looprpc.SwapServerClient\<close>: one stub per RPC. A stub is called
  with a context and a request at an instant of the clock; it returns either the response
  or the error of the call, never both and never neither, and the clock stands at the
  second component when it returns.
\<close>

type_synonym ('req, 'resp) stub = "Context \<Rightarrow> 'req \<Rightarrow> int \<Rightarrow> (string + 'resp) \<times> int"

record SwapServerClient =
  LoopOutTerms :: "(ServerLoopOutTermsRequest, ServerLoopOutTerms) stub"
  LoopOutQuote :: "(ServerLoopOutQuoteRequest, ServerLoopOutQuote) stub"
  LoopInTerms :: "(ServerLoopInTermsRequest, ServerLoopInTerms) stub"
  LoopInQuote :: "(ServerLoopInQuoteRequest, ServerLoopInQuoteResponse) stub"
  NewLoopOutSwap :: "(ServerLoopOutRequest, ServerLoopOutResponse) stub"
  NewLoopInSwap :: "(ServerLoopInRequest, ServerLoopInResponse) stub"

record 'conn grpcSwapServerClient =
  server :: SwapServerClient
  conn :: "'conn option"

subsection \<open>The RPC runtime\<close>

text \<open>
  The generated stubs of package looprpc and the RPC runtime they call are not among the
  sources. The remote service is one handler per RPC: for a request sent at an instant,
  the answer and the instant at which the answer is back at the client.
\<close>

type_synonym ('req, 'resp) handler = "'req \<Rightarrow> int \<Rightarrow> (string + 'resp) \<times> int"

record SwapServer =
  LoopOutTerms :: "(ServerLoopOutTermsRequest, ServerLoopOutTerms) handler"
  LoopOutQuote :: "(ServerLoopOutQuoteRequest, ServerLoopOutQuote) handler"
  LoopInTerms :: "(ServerLoopInTermsRequest, ServerLoopInTerms) handler"
  LoopInQuote :: "(ServerLoopInQuoteRequest, ServerLoopInQuoteResponse) handler"
  NewLoopOutSwap :: "(ServerLoopOutRequest, ServerLoopOutResponse) handler"
  NewLoopInSwap :: "(ServerLoopInRequest, ServerLoopInResponse) handler"

text \<open>
  Modelled from the spec: the error of a call aborted at its deadline, missing with the
  runtime. The spec (4.2 (c)) says that it is surfaced distinctly from an error the server
  reports.
\<close>

definition DeadlineExceeded :: string where
  "DeadlineExceeded = ''rpc error: code = DeadlineExceeded desc = context deadline exceeded''"

text \<open>
  Modelled from the spec: the call of a stub through the runtime, missing from the
  sources. The spec (4.2 (c)) says that the expiry of the deadline aborts the call and
  surfaces a deadline error. The stub sends the request and returns the answer if it is
  back by the deadline of the context; otherwise it returns the deadline error at the
  deadline, or at once if the deadline has passed when it is called.
\<close>

definition Invoke :: "('req, 'resp) handler \<Rightarrow> ('req, 'resp) stub" where
  "Invoke remote ctx req now =
     (case remote req now of
        (answer, back) \<Rightarrow>
          (case Deadline ctx of
             None \<Rightarrow> (answer, max now back)
           | Some d \<Rightarrow>
               if back \<le> d then (answer, max now back)
               else (Inl DeadlineExceeded, max now d)))"




subsection \<open>The operations\<close>

text \<open>
  A parameter or local variable of the source whose name is also a field of one of the
  records above carries a prime here (\<open>receiverKey'\<close> for \<^verbatim>\<open>receiverKey\<close>).

  The builtin \<^verbatim>\<open>copy(dst, src)\<close>: the first \<open>min (length dst) (length src)\<close>
  elements of \<open>dst\<close> are overwritten, the rest of \<open>dst\<close> stays. The value is the
  destination after the call.
\<close>

definition copy :: "'a list \<Rightarrow> 'a list \<Rightarrow> 'a list" where
  "copy dst src = take (length dst) src @ drop (length src) dst"

text \<open>The zero value of \<^verbatim>\<open>[33]byte\<close>.\<close>

definition zero33 :: "byte list" where
  "zero33 = replicate 33 0"

text \<open>
  The six operations. The variable \<^verbatim>\<open>globalCallTimeout\<close> is declared in another
  file of the package and is the first parameter here; the last parameter is the instant
  at which the operation is called. The value is the pair the Go function returns,
  together with the instant at which it returns: the instant at which its RPC returned,
  since what the operation computes itself takes no time in the model.
\<close>

definition GetLoopOutTerms ::
  "int \<Rightarrow> 'conn grpcSwapServerClient \<Rightarrow> Context \<Rightarrow> int
     \<Rightarrow> (LoopOutTerms option \<times> error option) \<times> int" where
  "GetLoopOutTerms globalCallTimeout s ctx now =
     (let rpcCtx = WithTimeout ctx globalCallTimeout now
      in case SwapServerClient.LoopOutTerms (server s) rpcCtx ServerLoopOutTermsRequest now of
           (Inl err, returned) \<Rightarrow> ((None, Some (RemoteCallError err)), returned)
         | (Inr terms, returned) \<Rightarrow>
             ((Some \<lparr>LoopOutTerms.MinSwapAmount = ServerLoopOutTerms.MinSwapAmount terms,
                     LoopOutTerms.MaxSwapAmount = ServerLoopOutTerms.MaxSwapAmount terms\<rparr>,
               None),
              returned))"

definition GetLoopOutQuote ::
  "int \<Rightarrow> 'conn grpcSwapServerClient \<Rightarrow> Context \<Rightarrow> Amount \<Rightarrow> Time \<Rightarrow> int
     \<Rightarrow> (LoopOutQuote option \<times> error option) \<times> int" where
  "GetLoopOutQuote globalCallTimeout s ctx amt swapPublicationDeadline now =
     (let rpcCtx = WithTimeout ctx globalCallTimeout now
      in case SwapServerClient.LoopOutQuote (server s) rpcCtx
                \<lparr>ServerLoopOutQuoteRequest.Amt = amt,
                 ServerLoopOutQuoteRequest.SwapPublicationDeadline =
                   Unix swapPublicationDeadline\<rparr> now of
           (Inl err, returned) \<Rightarrow> ((None, Some (RemoteCallError err)), returned)
         | (Inr quoteResp, returned) \<Rightarrow>
             (case DecodeString (ServerLoopOutQuote.SwapPaymentDest quoteResp) of
                Inl err \<Rightarrow> ((None, Some (DecodeError err)), returned)
              | Inr dest \<Rightarrow>
                  if length dest \<noteq> 33 then
                    ((None, Some (InvalidPaymentDestinationError ''invalid payment dest'')),
                     returned)
                  else
                    (let destArray = copy zero33 dest
                     in ((Some \<lparr>LoopOutQuote.PrepayAmount =
                                   ServerLoopOutQuote.PrepayAmt quoteResp,
                                 LoopOutQuote.SwapFee = ServerLoopOutQuote.SwapFee quoteResp,
                                 LoopOutQuote.CltvDelta =
                                   ServerLoopOutQuote.CltvDelta quoteResp,
                                 LoopOutQuote.SwapPaymentDest = destArray\<rparr>,
                          None),
                         returned))))"

definition GetLoopInTerms ::
  "int \<Rightarrow> 'conn grpcSwapServerClient \<Rightarrow> Context \<Rightarrow> int
     \<Rightarrow> (LoopInTerms option \<times> error option) \<times> int" where
  "GetLoopInTerms globalCallTimeout s ctx now =
     (let rpcCtx = WithTimeout ctx globalCallTimeout now
      in case SwapServerClient.LoopInTerms (server s) rpcCtx ServerLoopInTermsRequest now of
           (Inl err, returned) \<Rightarrow> ((None, Some (RemoteCallError err)), returned)
         | (Inr terms, returned) \<Rightarrow>
             ((Some \<lparr>LoopInTerms.MinSwapAmount = ServerLoopInTerms.MinSwapAmount terms,
                     LoopInTerms.MaxSwapAmount = ServerLoopInTerms.MaxSwapAmount terms\<rparr>,
               None),
              returned))"

definition GetLoopInQuote ::
  "int \<Rightarrow> 'conn grpcSwapServerClient \<Rightarrow> Context \<Rightarrow> Amount \<Rightarrow> int
     \<Rightarrow> (LoopInQuote option \<times> error option) \<times> int" where
  "GetLoopInQuote globalCallTimeout s ctx amt now =
     (let rpcCtx = WithTimeout ctx globalCallTimeout now
      in case SwapServerClient.LoopInQuote (server s) rpcCtx
                \<lparr>ServerLoopInQuoteRequest.Amt = amt\<rparr> now of
           (Inl err, returned) \<Rightarrow> ((None, Some (RemoteCallError err)), returned)
         | (Inr quoteResp, returned) \<Rightarrow>
             ((Some \<lparr>LoopInQuote.SwapFee = ServerLoopInQuoteResponse.SwapFee quoteResp,
                     LoopInQuote.CltvDelta = ServerLoopInQuoteResponse.CltvDelta quoteResp\<rparr>,
               None),
              returned))"

definition NewLoopOutSwap ::
  "int \<Rightarrow> 'conn grpcSwapServerClient \<Rightarrow> Context \<Rightarrow> Hash \<Rightarrow> Amount \<Rightarrow> byte list \<Rightarrow> Time
     \<Rightarrow> int \<Rightarrow> (newLoopOutResponse option \<times> error option) \<times> int" where
  "NewLoopOutSwap globalCallTimeout s ctx swapHash amount receiverKey' swapPublicationDeadline
       now =
     (let rpcCtx = WithTimeout ctx globalCallTimeout now
      in case SwapServerClient.NewLoopOutSwap (server s) rpcCtx
                \<lparr>ServerLoopOutRequest.SwapHash = swapHash,
                 ServerLoopOutRequest.Amt = amount,
                 ServerLoopOutRequest.ReceiverKey = receiverKey',
                 ServerLoopOutRequest.SwapPublicationDeadline =
                   Unix swapPublicationDeadline\<rparr> now of
           (Inl err, returned) \<Rightarrow> ((None, Some (RemoteCallError err)), returned)
         | (Inr swapResp, returned) \<Rightarrow>
             (let senderKey = copy zero33 (ServerLoopOutResponse.SenderKey swapResp)
              in case ParsePubKey senderKey of
                   Inl err \<Rightarrow>
                     ((None, Some (InvalidServerKeyError (''invalid sender key: '' @ err))),
                      returned)
                 | Inr _ \<Rightarrow>
                     ((Some \<lparr>swapInvoice = ServerLoopOutResponse.SwapInvoice swapResp,
                             prepayInvoice = ServerLoopOutResponse.PrepayInvoice swapResp,
                             senderKey = senderKey,
                             newLoopOutResponse.expiry =
                               ServerLoopOutResponse.Expiry swapResp\<rparr>,
                       None),
                      returned)))"

definition NewLoopInSwap ::
  "int \<Rightarrow> 'conn grpcSwapServerClient \<Rightarrow> Context \<Rightarrow> Hash \<Rightarrow> Amount \<Rightarrow> byte list \<Rightarrow> string
     \<Rightarrow> int \<Rightarrow> (newLoopInResponse option \<times> error option) \<times> int" where
  "NewLoopInSwap globalCallTimeout s ctx swapHash amount senderKey' swapInvoice' now =
     (let rpcCtx = WithTimeout ctx globalCallTimeout now
      in case SwapServerClient.NewLoopInSwap (server s) rpcCtx
                \<lparr>ServerLoopInRequest.SwapHash = swapHash,
                 ServerLoopInRequest.Amt = amount,
                 ServerLoopInRequest.SenderKey = senderKey',
                 ServerLoopInRequest.SwapInvoice = swapInvoice'\<rparr> now of
           (Inl err, returned) \<Rightarrow> ((None, Some (RemoteCallError err)), returned)
         | (Inr swapResp, returned) \<Rightarrow>
             (let receiverKey = copy zero33 (ServerLoopInResponse.ReceiverKey swapResp)
              in case ParsePubKey receiverKey of
                   Inl err \<Rightarrow>
                     ((None, Some (InvalidServerKeyError (''invalid sender key: '' @ err))),
                      returned)
                 | Inr _ \<Rightarrow>
                     ((Some \<lparr>receiverKey = receiverKey,
                             newLoopInResponse.expiry =
                               ServerLoopInResponse.Expiry swapResp\<rparr>,
                       None),
                      returned)))"

subsection \<open>Channel construction\<close>

text \<open>
  The zero value \<^verbatim>\<open>&tls.Config{}\<close>, the interceptor made by
  \<^verbatim>\<open>lsat.NewInterceptor(lnd, lsatStore, serverRPCTimeout)\<close>, and the dial options
  of package grpc.
\<close>

datatype tls_Config = tls_Config_zero

datatype ('lnd, 'store) Interceptor = NewInterceptor 'lnd 'store nat

datatype ('i, 'creds) DialOption =
    WithUnaryInterceptor 'i
  | WithInsecure
  | WithTransportCredentials 'creds

text \<open>
  What the construction calls outside the file: reading the certificate file, building
  the default credentials, dialing, and wrapping the connection in the generated client.
\<close>

record ('i, 'creds, 'conn) grpc =
  NewClientTLSFromFile :: "string \<Rightarrow> string \<Rightarrow> string + 'creds"
  NewTLS :: "tls_Config \<Rightarrow> 'creds"
  Dial :: "string \<Rightarrow> ('i, 'creds) DialOption list \<Rightarrow> string + 'conn"
  NewSwapServerClient :: "'conn option \<Rightarrow> SwapServerClient"

text \<open>
  The calls with an effect outside the process, in the order they are made: the value
  of a construction is its result together with this list.
\<close>

datatype ('i, 'creds) call =
    CallNewClientTLSFromFile string string
  | CallDial string "('i, 'creds) DialOption list"

fun isDial :: "('i, 'creds) call \<Rightarrow> bool" where
  "isDial (CallDial address opts) = True"
| "isDial (CallNewClientTLSFromFile certFile serverNameOverride) = False"

text \<open>
  The end of \<^verbatim>\<open>getSwapServerConn\<close>, which every case of the switch that does not
  return reaches with its options: the call of \<^verbatim>\<open>grpc.Dial\<close> and the wrapping of
  its error.
\<close>

definition dial ::
  "('i, 'creds, 'conn) grpc \<Rightarrow> string \<Rightarrow> ('i, 'creds) DialOption list
     \<Rightarrow> 'conn option \<times> error option" where
  "dial g address opts =
     (case Dial g address opts of
        Inl err \<Rightarrow>
          (None, Some (ChannelEstablishmentError (''unable to connect to RPC server: '' @ err)))
      | Inr conn' \<Rightarrow> (Some conn', None))"

definition getSwapServerConn ::
  "('i, 'creds, 'conn) grpc \<Rightarrow> string \<Rightarrow> bool \<Rightarrow> string \<Rightarrow> 'i
     \<Rightarrow> ('conn option \<times> error option) \<times> ('i, 'creds) call list" where
  "getSwapServerConn g address insecure tlsPath interceptor =
     (let opts = [WithUnaryInterceptor interceptor]
      in if insecure then
           (let opts = opts @ [WithInsecure]
            in (dial g address opts, [CallDial address opts]))
         else if tlsPath \<noteq> '''' then
           (case NewClientTLSFromFile g tlsPath '''' of
              Inl err \<Rightarrow>
                ((None, Some (CertificateLoadError err)),
                 [CallNewClientTLSFromFile tlsPath ''''])
            | Inr creds \<Rightarrow>
                (let opts = opts @ [WithTransportCredentials creds]
                 in (dial g address opts,
                     [CallNewClientTLSFromFile tlsPath '''', CallDial address opts])))
         else
           (let creds = NewTLS g tls_Config_zero;
                opts = opts @ [WithTransportCredentials creds]
            in (dial g address opts, [CallDial address opts])))"

text \<open>
  The constant \<^verbatim>\<open>serverRPCTimeout\<close> is declared in another file of the package;
  it is a parameter here.
\<close>

definition newSwapServerClient ::
  "(('lnd, 'store) Interceptor, 'creds, 'conn) grpc \<Rightarrow> nat \<Rightarrow> string \<Rightarrow> bool \<Rightarrow> string
     \<Rightarrow> 'store \<Rightarrow> 'lnd
     \<Rightarrow> ('conn grpcSwapServerClient option \<times> error option)
        \<times> (('lnd, 'store) Interceptor, 'creds) call list" where
  "newSwapServerClient g serverRPCTimeout address insecure tlsPath lsatStore lnd =
     (let clientInterceptor = NewInterceptor lnd lsatStore serverRPCTimeout
      in case getSwapServerConn g address insecure tlsPath clientInterceptor of
           ((serverConn, Some err), calls) \<Rightarrow> ((None, Some err), calls)
         | ((serverConn, None), calls) \<Rightarrow>
             ((Some \<lparr>server = NewSwapServerClient g serverConn, conn = serverConn\<rparr>, None),
              calls))"

subsection \<open>Concrete inputs\<close>

text \<open>
  The compressed encoding of the point \<open>(x, 1)\<close> of secp256k1, where \<open>x\<close> is a cube root
  of \<open>-6\<close> modulo the field prime: \<open>x\<^sup>3 + 7 = 1 = 1\<^sup>2\<close>. The first byte is 3 because
  the \<open>y\<close> coordinate is odd.
\<close>

definition key1_X :: int where
  "key1_X = 0x1fe1e5ef3fceb5c135ab7741333ce5a6e80d68167653f6b2b24bcbcfaaaff507"

definition key1 :: "byte list" where
  "key1 = [0x03,
     0x1f, 0xe1, 0xe5, 0xef, 0x3f, 0xce, 0xb5, 0xc1, 0x35, 0xab, 0x77, 0x41, 0x33, 0x3c, 0xe5, 0xa6,
     0xe8, 0x0d, 0x68, 0x16, 0x76, 0x53, 0xf6, 0xb2, 0xb2, 0x4b, 0xcb, 0xcf, 0xaa, 0xaf, 0xf5, 0x07]"

definition key1_hex :: string where
  "key1_hex = ''031fe1e5ef3fceb5c135ab7741333ce5a6e80d68167653f6b2b24bcbcfaaaff507''"

text \<open>The 33 bytes \<open>02 00 \<dots> 00\<close> in hexadecimal, and 33 zero bytes in hexadecimal.\<close>

definition prefix02_hex :: string where
  "prefix02_hex = ''020000000000000000000000000000000000000000000000000000000000000000''"

definition zero33_hex :: string where
  "zero33_hex = ''000000000000000000000000000000000000000000000000000000000000000000''"

text \<open>
  Stubs that answer every call at once: the quote carries the payment destination \<open>dest\<close>,
  both creation responses carry the key \<open>key\<close>. And stubs whose every call fails at once.
\<close>

definition answering :: "string \<Rightarrow> byte list \<Rightarrow> SwapServerClient" where
  "answering dest key =
     \<lparr>SwapServerClient.LoopOutTerms =
        (\<lambda>ctx req now. (Inr \<lparr>ServerLoopOutTerms.MinSwapAmount = 250000,
                               ServerLoopOutTerms.MaxSwapAmount = 2000000\<rparr>, now)),
      SwapServerClient.LoopOutQuote =
        (\<lambda>ctx req now. (Inr \<lparr>ServerLoopOutQuote.SwapPaymentDest = dest,
                               ServerLoopOutQuote.SwapFee = 1250,
                               ServerLoopOutQuote.PrepayAmt = 1337,
                               ServerLoopOutQuote.CltvDelta = 80\<rparr>, now)),
      SwapServerClient.LoopInTerms =
        (\<lambda>ctx req now. (Inr \<lparr>ServerLoopInTerms.MinSwapAmount = 250000,
                               ServerLoopInTerms.MaxSwapAmount = 1000000\<rparr>, now)),
      SwapServerClient.LoopInQuote =
        (\<lambda>ctx req now. (Inr \<lparr>ServerLoopInQuoteResponse.SwapFee = 1000,
                               ServerLoopInQuoteResponse.CltvDelta = 1000\<rparr>, now)),
      SwapServerClient.NewLoopOutSwap =
        (\<lambda>ctx req now. (Inr \<lparr>ServerLoopOutResponse.SwapInvoice = ''lnbc1swap'',
                               ServerLoopOutResponse.PrepayInvoice = ''lnbc1prepay'',
                               ServerLoopOutResponse.SenderKey = key,
                               ServerLoopOutResponse.Expiry = 600\<rparr>, now)),
      SwapServerClient.NewLoopInSwap =
        (\<lambda>ctx req now. (Inr \<lparr>ServerLoopInResponse.ReceiverKey = key,
                               ServerLoopInResponse.Expiry = 700\<rparr>, now))\<rparr>"

definition failing :: SwapServerClient where
  "failing =
     \<lparr>SwapServerClient.LoopOutTerms = (\<lambda>ctx req now. (Inl ''rpc error: code = Unavailable'', now)),
      SwapServerClient.LoopOutQuote = (\<lambda>ctx req now. (Inl ''rpc error: code = Unavailable'', now)),
      SwapServerClient.LoopInTerms = (\<lambda>ctx req now. (Inl ''rpc error: code = Unavailable'', now)),
      SwapServerClient.LoopInQuote = (\<lambda>ctx req now. (Inl ''rpc error: code = Unavailable'', now)),
      SwapServerClient.NewLoopOutSwap = (\<lambda>ctx req now. (Inl ''rpc error: code = Unavailable'', now)),
      SwapServerClient.NewLoopInSwap = (\<lambda>ctx req now. (Inl ''rpc error: code = Unavailable'', now))\<rparr>"

definition client :: "SwapServerClient \<Rightarrow> nat grpcSwapServerClient" where
  "client srv = \<lparr>server = srv, conn = Some 0\<rparr>"

text \<open>
  A remote service whose every answer is back \<open>delay\<close> nanoseconds after the request was
  sent. One second, as a duration.
\<close>

definition second :: int where
  "second = 1000000000"


text \<open>
  An environment for the construction: one certificate file exists, every address can be
  dialed, and the connection made is the pair of the address and the options it was
  dialed with.
\<close>

definition env ::
  "((unit, unit) Interceptor, string,
    string \<times> ((unit, unit) Interceptor, string) DialOption list) grpc" where
  "env =
     \<lparr>NewClientTLSFromFile =
        (\<lambda>certFile serverNameOverride.
           if certFile = ''/home/loop/tls.cert'' then Inr ''pinned: /home/loop/tls.cert''
           else Inl (''open '' @ certFile @ '': no such file or directory'')),
      NewTLS = (\<lambda>config. ''system roots''),
      Dial = (\<lambda>address opts. Inr (address, opts)),
      NewSwapServerClient = (\<lambda>c. failing)\<rparr>"



section \<open>Properties\<close>

subsection \<open>The builtin copy into a 33-byte array\<close>

lemma length_copy: "length (copy dst src) = length dst"
  by (simp add: copy_def)

lemma copy_zero33: "copy zero33 k = take 33 k @ replicate (33 - length k) 0"
  by (simp add: copy_def zero33_def)

lemma copy_zero33_id: "length k = 33 \<Longrightarrow> copy zero33 k = k"
  by (simp add: copy_def zero33_def)

lemma copy_zero33_append: "length k = 33 \<Longrightarrow> copy zero33 (k @ extra) = k"
  by (simp add: copy_def zero33_def)

subsection \<open>Hex decoding inverts hex encoding\<close>

lemma fromHexChar_hextable:
  assumes "n < 16"
  shows "fromHexChar (hextable ! n) = Some (of_nat n)"
proof -
  from assms have "n = 0 \<or> n = 1 \<or> n = 2 \<or> n = 3 \<or> n = 4 \<or> n = 5 \<or> n = 6 \<or> n = 7 \<or>
      n = 8 \<or> n = 9 \<or> n = 10 \<or> n = 11 \<or> n = 12 \<or> n = 13 \<or> n = 14 \<or> n = 15"
    by presburger
  then show ?thesis
    by (auto simp: hextable_def fromHexChar_def)
qed

lemma high_nibble_less: "unat (drop_bit 4 (v :: byte)) < 16"
proof -
  have "unat (drop_bit 4 v) = unat v div 16"
    by (simp add: drop_bit_eq_div unat_div)
  moreover have "unat v < 256"
    using unsigned_less [of v] by simp
  ultimately show ?thesis by simp
qed

lemma low_nibble_less: "unat ((v :: byte) AND 0x0f) < 16"
proof -
  have "unat (v AND 15) \<le> unat (15 :: byte)"
    by (rule word_and_le1 [THEN word_le_nat_alt [THEN iffD1]])
  then show ?thesis by simp
qed

lemma nibbles_byte: "push_bit 4 (drop_bit 4 v) OR (v AND 0x0f) = (v :: byte)"
proof -
  have m: "(0x0f :: byte) = mask 4"
    by (simp add: mask_eq_exp_minus_1)
  have "push_bit 4 (drop_bit 4 v) OR take_bit 4 v = v"
    by (rule bit_word_eqI)
      (auto simp: bit_push_bit_iff bit_drop_bit_eq bit_take_bit_iff bit_or_iff not_less)
  then show ?thesis
    by (simp add: m take_bit_eq_mask)
qed

lemma DecodeString_EncodeToString: "DecodeString (EncodeToString bs) = Inr bs"
  by (induction bs)
    (simp_all add: fromHexChar_hextable high_nibble_less low_nibble_less nibbles_byte)

lemma length_EncodeToString: "length (EncodeToString bs) = 2 * length bs"
  by (induction bs) simp_all

subsection \<open>Exponentiation by squaring is exponentiation\<close>

lemma sqmul_power:
  assumes "0 < y"
  shows "sqmul (x ^ nat (y div 2) mod m) (odd y) x m = x ^ nat y mod m"
proof (cases "odd y")
  case True
  then obtain k where y: "y = 2 * k + 1" by (auto elim: oddE)
  with assms have k: "0 \<le> k" by simp
  then have "nat y = Suc (nat k + nat k)" using y by simp
  then have "x ^ nat y = x ^ nat k * x ^ nat k * x"
    by (simp add: power_add)
  moreover have "y div 2 = k" using y by simp
  moreover have "x ^ nat k mod m * (x ^ nat k mod m) mod m * x mod m =
      x ^ nat k * x ^ nat k * x mod m"
    by (metis mod_mult_eq mod_mult_left_eq)
  ultimately show ?thesis using True
    by (simp add: sqmul_def)
next
  case False
  then obtain k where y: "y = 2 * k" by (auto elim: evenE)
  with assms have k: "0 \<le> k" by simp
  then have "nat y = nat k + nat k" using y by simp
  then have "x ^ nat y = x ^ nat k * x ^ nat k"
    by (simp add: power_add)
  moreover have "y div 2 = k" using y by simp
  ultimately show ?thesis using False
    by (simp add: sqmul_def mod_mult_eq)
qed

lemma Exp_power: "Exp x y m = x ^ nat y mod m"
proof (induction x y m rule: Exp.induct)
  case (1 x y m)
  show ?case
  proof (cases "y \<le> 0")
    case True
    then show ?thesis by (simp add: Exp.simps)
  next
    case False
    then have "Exp x y m = sqmul (Exp x (y div 2) m) (odd y) x m"
      by (simp add: Exp.simps)
    also have "\<dots> = sqmul (x ^ nat (y div 2) mod m) (odd y) x m"
      using 1 False by simp
    also have "\<dots> = x ^ nat y mod m"
      using False by (simp add: sqmul_power)
    finally show ?thesis .
  qed
qed

subsection \<open>What an accepted key is\<close>

lemma ParsePubKey_compressed:
  assumes "length k = 33" and "ParsePubKey k = Inr pk"
  shows "hd k AND NOT 0x1 = 0x2 \<and> X pk = SetBytes (take 32 (drop 1 k)) \<and>
         Y pk * Y pk mod S256_P = (X pk * X pk * X pk + 7) mod S256_P"
  using assms
  by (auto simp: ParsePubKey_def decompressPoint_def Let_def S256_B_def
      PubKeyBytesLenCompressed_def PubKeyBytesLenUncompressed_def pubkeyCompressed_def
      split: if_splits sum.splits)

lemma ParsePubKey_length:
  assumes "ParsePubKey k = Inr pk"
  shows "length k = 33 \<or> length k = 65"
  using assms
  by (auto simp: ParsePubKey_def Let_def
      PubKeyBytesLenCompressed_def PubKeyBytesLenUncompressed_def
      split: if_splits sum.splits)

subsection \<open>The key in a creation response\<close>

lemma NewLoopOutSwap_key_valid:
  assumes "fst (NewLoopOutSwap T s ctx h a rk t now) = (Some r, e)"
  shows "length (senderKey r) = 33 \<and> (\<exists>pk. ParsePubKey (senderKey r) = Inr pk)"
  using assms
  by (auto simp: NewLoopOutSwap_def Let_def length_copy zero33_def
      split: sum.splits prod.splits)

lemma NewLoopInSwap_key_valid:
  assumes "fst (NewLoopInSwap T s ctx h a sk iv now) = (Some r, e)"
  shows "length (receiverKey r) = 33 \<and> (\<exists>pk. ParsePubKey (receiverKey r) = Inr pk)"
  using assms
  by (auto simp: NewLoopInSwap_def Let_def length_copy zero33_def
      split: sum.splits prod.splits)

subsection \<open>The deadline of the context handed to a stub\<close>


lemma Invoke_returns:
  assumes "Deadline ctx = Some d"
  shows "now \<le> snd (Invoke remote ctx req now) \<and> snd (Invoke remote ctx req now) \<le> max now d"
  using assms by (auto simp: Invoke_def split: prod.splits)

lemma Invoke_aborts:
  assumes "Deadline ctx = Some d" and "d < snd (remote req now)"
  shows "Invoke remote ctx req now = (Inl DeadlineExceeded, max now d)"
  using assms by (auto simp: Invoke_def split: prod.splits)

subsection \<open>The concrete inputs evaluated\<close>

lemma key1_cubic: "(key1_X * key1_X * key1_X + 7) mod S256_P = 1"
  by code_simp

lemma key1_lt: "key1_X < S256_P" "1 < S256_P"
  by (simp_all add: key1_X_def S256_P_def)

lemma Exp_one: "Exp 1 S256_QPlus1Div4 S256_P = 1"
  by code_simp

lemma key1_decompress: "decompressPoint key1_X True = Inr 1"
  using key1_lt
  by (simp add: decompressPoint_def Let_def S256_B_def key1_cubic Exp_one isOdd_def)

lemma key1_fmt: "hd key1 = 3" "length key1 = 33" "SetBytes (drop (Suc 0) key1) = key1_X"
  by (simp_all add: key1_def SetBytes_def key1_X_def)

lemma key1_Parse: "ParsePubKey key1 = Inr \<lparr>X = key1_X, Y = 1\<rparr>"
  by (simp add: ParsePubKey_def Let_def key1_fmt key1_decompress
      pubkeyCompressed_def PubKeyBytesLenCompressed_def PubKeyBytesLenUncompressed_def)

lemma key1_34_Parse: "ParsePubKey (key1 @ [0xff]) = Inl ''invalid pub key length 34''"
  by (simp add: ParsePubKey_def Let_def key1_fmt
      PubKeyBytesLenCompressed_def PubKeyBytesLenUncompressed_def fmt_d.simps)

lemma key1_35_Parse: "ParsePubKey (key1 @ [0x00, 0x01]) = Inl ''invalid pub key length 35''"
  by (simp add: ParsePubKey_def Let_def key1_fmt
      PubKeyBytesLenCompressed_def PubKeyBytesLenUncompressed_def fmt_d.simps)

lemma zero33_Parse:
  "ParsePubKey zero33 = Inl ''invalid magic in compressed pubkey string: 0''"
  by (simp add: zero33_def ParsePubKey_def Let_def pubkeyCompressed_def
      PubKeyBytesLenCompressed_def PubKeyBytesLenUncompressed_def fmt_d.simps numeral_eq_Suc)

lemma length_zero33: "length zero33 = 33"
  by (simp add: zero33_def)

lemma key1_hex_Decode: "DecodeString key1_hex = Inr key1"
  by (simp add: key1_hex_def key1_def fromHexChar_def)

lemma zero33_hex_Decode: "DecodeString zero33_hex = Inr zero33"
  by (simp add: zero33_hex_def zero33_def fromHexChar_def numeral_eq_Suc)

lemma prefix02_hex_Decode: "DecodeString prefix02_hex = Inr (2 # replicate 32 0)"
  by (simp add: prefix02_hex_def fromHexChar_def numeral_eq_Suc)

subsection \<open>The operations on the stubs of the runtime\<close>








section \<open>The claims\<close>

subsection \<open>C9: a result or an error, never both and never neither\<close>

text \<open>
  C9. Each of the six operations returns exactly one of a response and an error. On every
  failing path the response is nil and the error is the one of that path: the error of
  the RPC, the error of the hex decoding, the error of the length check, the error of the
  key validation. On the one path that fails nowhere the error is nil and the response is
  the one built from the server's answer.
\<close>

theorem result_xor_error:
  "(SwapServerClient.LoopOutTerms (server s) (WithTimeout ctx T now)
      ServerLoopOutTermsRequest now = (Inl err, returned) \<longrightarrow>
    GetLoopOutTerms T s ctx now = ((None, Some (RemoteCallError err)), returned)) \<and>
   (SwapServerClient.LoopOutTerms (server s) (WithTimeout ctx T now)
      ServerLoopOutTermsRequest now = (Inr outTerms, returned) \<longrightarrow>
    GetLoopOutTerms T s ctx now =
      ((Some \<lparr>LoopOutTerms.MinSwapAmount = ServerLoopOutTerms.MinSwapAmount outTerms,
              LoopOutTerms.MaxSwapAmount = ServerLoopOutTerms.MaxSwapAmount outTerms\<rparr>,
        None), returned)) \<and>
   (SwapServerClient.LoopInTerms (server s) (WithTimeout ctx T now)
      ServerLoopInTermsRequest now = (Inl err, returned) \<longrightarrow>
    GetLoopInTerms T s ctx now = ((None, Some (RemoteCallError err)), returned)) \<and>
   (SwapServerClient.LoopInTerms (server s) (WithTimeout ctx T now)
      ServerLoopInTermsRequest now = (Inr inTerms, returned) \<longrightarrow>
    GetLoopInTerms T s ctx now =
      ((Some \<lparr>LoopInTerms.MinSwapAmount = ServerLoopInTerms.MinSwapAmount inTerms,
              LoopInTerms.MaxSwapAmount = ServerLoopInTerms.MaxSwapAmount inTerms\<rparr>,
        None), returned)) \<and>
   (SwapServerClient.LoopInQuote (server s) (WithTimeout ctx T now)
      \<lparr>ServerLoopInQuoteRequest.Amt = amt\<rparr> now = (Inl err, returned) \<longrightarrow>
    GetLoopInQuote T s ctx amt now = ((None, Some (RemoteCallError err)), returned)) \<and>
   (SwapServerClient.LoopInQuote (server s) (WithTimeout ctx T now)
      \<lparr>ServerLoopInQuoteRequest.Amt = amt\<rparr> now = (Inr inQuote, returned) \<longrightarrow>
    GetLoopInQuote T s ctx amt now =
      ((Some \<lparr>LoopInQuote.SwapFee = ServerLoopInQuoteResponse.SwapFee inQuote,
              LoopInQuote.CltvDelta = ServerLoopInQuoteResponse.CltvDelta inQuote\<rparr>,
        None), returned)) \<and>
   (SwapServerClient.LoopOutQuote (server s) (WithTimeout ctx T now)
      \<lparr>ServerLoopOutQuoteRequest.Amt = amt,
       ServerLoopOutQuoteRequest.SwapPublicationDeadline = Unix t\<rparr> now =
      (Inl err, returned) \<longrightarrow>
    GetLoopOutQuote T s ctx amt t now = ((None, Some (RemoteCallError err)), returned)) \<and>
   (SwapServerClient.LoopOutQuote (server s) (WithTimeout ctx T now)
      \<lparr>ServerLoopOutQuoteRequest.Amt = amt,
       ServerLoopOutQuoteRequest.SwapPublicationDeadline = Unix t\<rparr> now =
      (Inr outQuote, returned) \<longrightarrow>
    (DecodeString (ServerLoopOutQuote.SwapPaymentDest outQuote) = Inl herr \<longrightarrow>
       GetLoopOutQuote T s ctx amt t now = ((None, Some (DecodeError herr)), returned)) \<and>
    (DecodeString (ServerLoopOutQuote.SwapPaymentDest outQuote) = Inr dest \<longrightarrow>
       length dest \<noteq> 33 \<longrightarrow>
       GetLoopOutQuote T s ctx amt t now =
         ((None, Some (InvalidPaymentDestinationError ''invalid payment dest'')), returned)) \<and>
    (DecodeString (ServerLoopOutQuote.SwapPaymentDest outQuote) = Inr dest \<longrightarrow>
       length dest = 33 \<longrightarrow>
       GetLoopOutQuote T s ctx amt t now =
         ((Some \<lparr>LoopOutQuote.PrepayAmount = ServerLoopOutQuote.PrepayAmt outQuote,
                 LoopOutQuote.SwapFee = ServerLoopOutQuote.SwapFee outQuote,
                 LoopOutQuote.CltvDelta = ServerLoopOutQuote.CltvDelta outQuote,
                 LoopOutQuote.SwapPaymentDest = dest\<rparr>,
           None), returned))) \<and>
   (SwapServerClient.NewLoopOutSwap (server s) (WithTimeout ctx T now)
      \<lparr>ServerLoopOutRequest.SwapHash = h, ServerLoopOutRequest.Amt = amt,
       ServerLoopOutRequest.ReceiverKey = k,
       ServerLoopOutRequest.SwapPublicationDeadline = Unix t\<rparr> now =
      (Inl err, returned) \<longrightarrow>
    NewLoopOutSwap T s ctx h amt k t now = ((None, Some (RemoteCallError err)), returned)) \<and>
   (SwapServerClient.NewLoopOutSwap (server s) (WithTimeout ctx T now)
      \<lparr>ServerLoopOutRequest.SwapHash = h, ServerLoopOutRequest.Amt = amt,
       ServerLoopOutRequest.ReceiverKey = k,
       ServerLoopOutRequest.SwapPublicationDeadline = Unix t\<rparr> now =
      (Inr ro, returned) \<longrightarrow>
    (ParsePubKey (copy zero33 (ServerLoopOutResponse.SenderKey ro)) = Inl perr \<longrightarrow>
       NewLoopOutSwap T s ctx h amt k t now =
         ((None, Some (InvalidServerKeyError (''invalid sender key: '' @ perr))), returned)) \<and>
    (ParsePubKey (copy zero33 (ServerLoopOutResponse.SenderKey ro)) = Inr pk \<longrightarrow>
       NewLoopOutSwap T s ctx h amt k t now =
         ((Some \<lparr>swapInvoice = ServerLoopOutResponse.SwapInvoice ro,
                 prepayInvoice = ServerLoopOutResponse.PrepayInvoice ro,
                 senderKey = copy zero33 (ServerLoopOutResponse.SenderKey ro),
                 newLoopOutResponse.expiry = ServerLoopOutResponse.Expiry ro\<rparr>,
           None), returned))) \<and>
   (SwapServerClient.NewLoopInSwap (server s) (WithTimeout ctx T now)
      \<lparr>ServerLoopInRequest.SwapHash = h, ServerLoopInRequest.Amt = amt,
       ServerLoopInRequest.SenderKey = k,
       ServerLoopInRequest.SwapInvoice = iv\<rparr> now = (Inl err, returned) \<longrightarrow>
    NewLoopInSwap T s ctx h amt k iv now = ((None, Some (RemoteCallError err)), returned)) \<and>
   (SwapServerClient.NewLoopInSwap (server s) (WithTimeout ctx T now)
      \<lparr>ServerLoopInRequest.SwapHash = h, ServerLoopInRequest.Amt = amt,
       ServerLoopInRequest.SenderKey = k,
       ServerLoopInRequest.SwapInvoice = iv\<rparr> now = (Inr ri, returned) \<longrightarrow>
    (ParsePubKey (copy zero33 (ServerLoopInResponse.ReceiverKey ri)) = Inl perr \<longrightarrow>
       NewLoopInSwap T s ctx h amt k iv now =
         ((None, Some (InvalidServerKeyError (''invalid sender key: '' @ perr))), returned)) \<and>
    (ParsePubKey (copy zero33 (ServerLoopInResponse.ReceiverKey ri)) = Inr pk \<longrightarrow>
       NewLoopInSwap T s ctx h amt k iv now =
         ((Some \<lparr>receiverKey = copy zero33 (ServerLoopInResponse.ReceiverKey ri),
                 newLoopInResponse.expiry = ServerLoopInResponse.Expiry ri\<rparr>,
           None), returned))) \<and>
   ((fst (fst (GetLoopOutTerms T s ctx now)) = None) \<noteq>
      (snd (fst (GetLoopOutTerms T s ctx now)) = None)) \<and>
   ((fst (fst (GetLoopOutQuote T s ctx amt t now)) = None) \<noteq>
      (snd (fst (GetLoopOutQuote T s ctx amt t now)) = None)) \<and>
   ((fst (fst (GetLoopInTerms T s ctx now)) = None) \<noteq>
      (snd (fst (GetLoopInTerms T s ctx now)) = None)) \<and>
   ((fst (fst (GetLoopInQuote T s ctx amt now)) = None) \<noteq>
      (snd (fst (GetLoopInQuote T s ctx amt now)) = None)) \<and>
   ((fst (fst (NewLoopOutSwap T s ctx h amt k t now)) = None) \<noteq>
      (snd (fst (NewLoopOutSwap T s ctx h amt k t now)) = None)) \<and>
   ((fst (fst (NewLoopInSwap T s ctx h amt k iv now)) = None) \<noteq>
      (snd (fst (NewLoopInSwap T s ctx h amt k iv now)) = None))"
proof (intro conjI)
qed (simp_all add: GetLoopOutTerms_def GetLoopOutQuote_def GetLoopInTerms_def
    GetLoopInQuote_def NewLoopOutSwap_def NewLoopInSwap_def Let_def copy_zero33_id
    split: sum.splits prod.splits)

text \<open>
  The error of the RPC, of the hex decoding, of the length check and of the key validation,
  each with no response; and a quote with no error.
\<close>

theorem result_xor_error_witness:
  "GetLoopOutTerms (30 * second) (client failing) Background 0 =
     ((None, Some (RemoteCallError ''rpc error: code = Unavailable'')), 0) \<and>
   GetLoopOutQuote (30 * second) (client (answering ''zz'' zero33)) Background 100000
     (Time 1600000000) 0 =
     ((None, Some (DecodeError (InvalidByteError CHR ''z''))), 0) \<and>
   GetLoopOutQuote (30 * second) (client (answering ''0203'' zero33)) Background 100000
     (Time 1600000000) 0 =
     ((None, Some (InvalidPaymentDestinationError ''invalid payment dest'')), 0) \<and>
   NewLoopOutSwap (30 * second) (client (answering ''zz'' zero33)) Background (replicate 32 7)
     100000 key1 (Time 1600000000) 0 =
     ((None, Some (InvalidServerKeyError
         ''invalid sender key: invalid magic in compressed pubkey string: 0'')), 0) \<and>
   GetLoopInQuote (30 * second) (client (answering ''zz'' zero33)) Background 100000 0 =
     ((Some \<lparr>LoopInQuote.SwapFee = 1000, LoopInQuote.CltvDelta = 1000\<rparr>, None), 0)"
proof -
  have p1: "GetLoopOutTerms (30 * second) (client failing) Background 0 =
      ((None, Some (RemoteCallError ''rpc error: code = Unavailable'')), 0)"
    using result_xor_error [where s = "client failing" and ctx = Background
        and T = "30 * second" and now = 0 and err = "''rpc error: code = Unavailable''"
        and returned = 0, THEN conjunct1]
    by (simp add: client_def failing_def)
  have p2: "GetLoopOutQuote (30 * second) (client (answering ''zz'' zero33)) Background 100000
      (Time 1600000000) 0 = ((None, Some (DecodeError (InvalidByteError CHR ''z''))), 0)"
    using result_xor_error [where s = "client (answering ''zz'' zero33)" and ctx = Background
        and T = "30 * second" and now = 0 and returned = 0 and amt = 100000
        and t = "Time 1600000000"
        and outQuote = "\<lparr>ServerLoopOutQuote.SwapPaymentDest = ''zz'',
          ServerLoopOutQuote.SwapFee = 1250, ServerLoopOutQuote.PrepayAmt = 1337,
          ServerLoopOutQuote.CltvDelta = 80\<rparr>"
        and herr = "InvalidByteError CHR ''z''" and dest = "[]" and err = "[]"
        and outTerms = undefined and inTerms = undefined and inQuote = undefined
        and h = "[]" and k = "[]" and iv = "[]" and ro = undefined and ri = undefined
        and perr = "[]" and pk = undefined]
    by (simp add: client_def answering_def fromHexChar_def)
  have p3: "GetLoopOutQuote (30 * second) (client (answering ''0203'' zero33)) Background
      100000 (Time 1600000000) 0 =
      ((None, Some (InvalidPaymentDestinationError ''invalid payment dest'')), 0)"
    using result_xor_error [where s = "client (answering ''0203'' zero33)" and ctx = Background
        and T = "30 * second" and now = 0 and returned = 0 and amt = 100000
        and t = "Time 1600000000"
        and outQuote = "\<lparr>ServerLoopOutQuote.SwapPaymentDest = ''0203'',
          ServerLoopOutQuote.SwapFee = 1250, ServerLoopOutQuote.PrepayAmt = 1337,
          ServerLoopOutQuote.CltvDelta = 80\<rparr>"
        and herr = ErrLength and dest = "[2, 3]" and err = "[]"
        and outTerms = undefined and inTerms = undefined and inQuote = undefined
        and h = "[]" and k = "[]" and iv = "[]" and ro = undefined and ri = undefined
        and perr = "[]" and pk = undefined]
    by (simp add: client_def answering_def fromHexChar_def)
  have p4: "NewLoopOutSwap (30 * second) (client (answering ''zz'' zero33)) Background
      (replicate 32 7) 100000 key1 (Time 1600000000) 0 =
      ((None, Some (InvalidServerKeyError
          ''invalid sender key: invalid magic in compressed pubkey string: 0'')), 0)"
    using result_xor_error [where s = "client (answering ''zz'' zero33)" and ctx = Background
        and T = "30 * second" and now = 0 and returned = 0 and amt = 100000
        and t = "Time 1600000000" and h = "replicate 32 7" and k = key1
        and ro = "\<lparr>ServerLoopOutResponse.SwapInvoice = ''lnbc1swap'',
          ServerLoopOutResponse.PrepayInvoice = ''lnbc1prepay'',
          ServerLoopOutResponse.SenderKey = zero33, ServerLoopOutResponse.Expiry = 600\<rparr>"
        and perr = "''invalid magic in compressed pubkey string: 0''"
        and herr = ErrLength and dest = "[]" and err = "[]"
        and outTerms = undefined and inTerms = undefined and inQuote = undefined
        and outQuote = undefined and iv = "[]" and ri = undefined and pk = undefined]
    by (simp add: client_def answering_def copy_zero33_id length_zero33 zero33_Parse)
  have p5: "GetLoopInQuote (30 * second) (client (answering ''zz'' zero33)) Background 100000 0 =
      ((Some \<lparr>LoopInQuote.SwapFee = 1000, LoopInQuote.CltvDelta = 1000\<rparr>, None), 0)"
    using result_xor_error [where s = "client (answering ''zz'' zero33)" and ctx = Background
        and T = "30 * second" and now = 0 and returned = 0 and amt = 100000
        and t = "Time 1600000000"
        and inQuote = "\<lparr>ServerLoopInQuoteResponse.SwapFee = 1000,
          ServerLoopInQuoteResponse.CltvDelta = 1000\<rparr>"
        and herr = ErrLength and dest = "[]" and err = "[]"
        and outTerms = undefined and inTerms = undefined and outQuote = undefined
        and h = "[]" and k = "[]" and iv = "[]" and ro = undefined and ri = undefined
        and perr = "[]" and pk = undefined]
    by (simp add: client_def answering_def)
  from p1 p2 p3 p4 p5 show ?thesis by simp
qed

subsection \<open>C8: a valid sender key gives the populated response\<close>

text \<open>
  C8. When the RPC of NewLoopOutSwap succeeds and the sender key of the response has 33
  bytes and parses as a public key, the call returns no error and a response holding that
  key, the swap invoice, the prepay invoice and the expiry of the server's response,
  unchanged.
\<close>

theorem valid_sender_key_response:
  assumes "SwapServerClient.NewLoopOutSwap (server s) (WithTimeout ctx T now)
      \<lparr>ServerLoopOutRequest.SwapHash = h, ServerLoopOutRequest.Amt = a,
       ServerLoopOutRequest.ReceiverKey = rk,
       ServerLoopOutRequest.SwapPublicationDeadline = Unix t\<rparr> now = (Inr ro, returned)"
    and "length (ServerLoopOutResponse.SenderKey ro) = 33"
    and "ParsePubKey (ServerLoopOutResponse.SenderKey ro) = Inr pk"
  shows "NewLoopOutSwap T s ctx h a rk t now =
     ((Some \<lparr>swapInvoice = ServerLoopOutResponse.SwapInvoice ro,
             prepayInvoice = ServerLoopOutResponse.PrepayInvoice ro,
             senderKey = ServerLoopOutResponse.SenderKey ro,
             newLoopOutResponse.expiry = ServerLoopOutResponse.Expiry ro\<rparr>,
       None), returned)"
  using assms by (simp add: NewLoopOutSwap_def Let_def copy_zero33_id)

theorem valid_sender_key_response_witness:
  "NewLoopOutSwap (30 * second) (client (answering zero33_hex key1)) Background
     (replicate 32 7) 100000 key1 (Time 1600000000) 0 =
     ((Some \<lparr>swapInvoice = ''lnbc1swap'', prepayInvoice = ''lnbc1prepay'', senderKey = key1,
             newLoopOutResponse.expiry = 600\<rparr>,
       None), 0)"
  using valid_sender_key_response [where s = "client (answering zero33_hex key1)"
      and ctx = Background and T = "30 * second" and now = 0 and returned = 0
      and h = "replicate 32 7" and a = 100000 and rk = key1 and t = "Time 1600000000"
      and ro = "\<lparr>ServerLoopOutResponse.SwapInvoice = ''lnbc1swap'',
        ServerLoopOutResponse.PrepayInvoice = ''lnbc1prepay'',
        ServerLoopOutResponse.SenderKey = key1, ServerLoopOutResponse.Expiry = 600\<rparr>"
      and pk = "\<lparr>X = key1_X, Y = 1\<rparr>"]
  by (simp add: client_def answering_def key1_fmt key1_Parse)

subsection \<open>C10: the receiver key is reported as a sender key\<close>

text \<open>
  C10. When NewLoopInSwap rejects the receiver key of the response, the message of its
  error is \<^verbatim>\<open>invalid sender key: \<close> followed by the parser's message, and not
  \<^verbatim>\<open>invalid receiver key: \<close> followed by it; NewLoopOutSwap, given the same bytes as
  sender key, returns the same error.
\<close>

theorem receiver_key_error_text:
  assumes "SwapServerClient.NewLoopInSwap (server s) (WithTimeout ctx T now)
      \<lparr>ServerLoopInRequest.SwapHash = h, ServerLoopInRequest.Amt = a,
       ServerLoopInRequest.SenderKey = sk,
       ServerLoopInRequest.SwapInvoice = iv\<rparr> now = (Inr ri, returned)"
    and "ParsePubKey (copy zero33 (ServerLoopInResponse.ReceiverKey ri)) = Inl e"
  shows "snd (fst (NewLoopInSwap T s ctx h a sk iv now)) =
           Some (InvalidServerKeyError (''invalid sender key: '' @ e)) \<and>
         snd (fst (NewLoopInSwap T s ctx h a sk iv now)) \<noteq>
           Some (InvalidServerKeyError (''invalid receiver key: '' @ e)) \<and>
         (SwapServerClient.NewLoopOutSwap (server s') (WithTimeout ctx' T' now')
            \<lparr>ServerLoopOutRequest.SwapHash = h', ServerLoopOutRequest.Amt = a',
             ServerLoopOutRequest.ReceiverKey = rk,
             ServerLoopOutRequest.SwapPublicationDeadline = Unix t\<rparr> now' =
            (Inr ro, returned') \<longrightarrow>
          ServerLoopOutResponse.SenderKey ro = ServerLoopInResponse.ReceiverKey ri \<longrightarrow>
          snd (fst (NewLoopOutSwap T' s' ctx' h' a' rk t now')) =
            snd (fst (NewLoopInSwap T s ctx h a sk iv now)))"
  using assms by (simp add: NewLoopInSwap_def NewLoopOutSwap_def Let_def)

theorem receiver_key_error_text_witness:
  "snd (fst (NewLoopInSwap (30 * second) (client (answering zero33_hex (replicate 33 0xff)))
          Background (replicate 32 7) 100000 key1 ''lnbc1invoice'' 0)) =
     Some (InvalidServerKeyError
       ''invalid sender key: invalid magic in compressed pubkey string: 255'') \<and>
   snd (fst (NewLoopOutSwap (30 * second) (client (answering zero33_hex (replicate 33 0xff)))
          Background (replicate 32 7) 100000 key1 (Time 1600000000) 0)) =
     Some (InvalidServerKeyError
       ''invalid sender key: invalid magic in compressed pubkey string: 255'')"
proof -
  have p: "ParsePubKey (copy zero33 (replicate 33 0xff)) =
      Inl ''invalid magic in compressed pubkey string: 255''"
    by (simp add: copy_zero33_id ParsePubKey_def Let_def
        pubkeyCompressed_def PubKeyBytesLenCompressed_def PubKeyBytesLenUncompressed_def
        hd_replicate fmt_d.simps)
  show ?thesis
    using receiver_key_error_text [where s = "client (answering zero33_hex (replicate 33 0xff))"
        and ctx = Background and T = "30 * second" and now = 0 and returned = 0
        and h = "replicate 32 7" and a = 100000 and sk = key1 and iv = "''lnbc1invoice''"
        and ri = "\<lparr>ServerLoopInResponse.ReceiverKey = replicate 33 0xff,
          ServerLoopInResponse.Expiry = 700\<rparr>"
        and e = "''invalid magic in compressed pubkey string: 255''"
        and s' = "client (answering zero33_hex (replicate 33 0xff))"
        and ctx' = Background and T' = "30 * second" and now' = 0 and returned' = 0
        and h' = "replicate 32 7" and a' = 100000 and rk = key1 and t = "Time 1600000000"
        and ro = "\<lparr>ServerLoopOutResponse.SwapInvoice = ''lnbc1swap'',
          ServerLoopOutResponse.PrepayInvoice = ''lnbc1prepay'',
          ServerLoopOutResponse.SenderKey = replicate 33 0xff,
          ServerLoopOutResponse.Expiry = 600\<rparr>"] p
    by (simp add: client_def answering_def)
qed

subsection \<open>C3: decoding the payment destination of a quote\<close>

text \<open>
  C3. When the RPC of GetLoopOutQuote succeeds, the payment destination of the response is
  hex-decoded. If the decoding fails, the call returns its error and no quote; if it gives
  other than 33 bytes, the call returns the error \<^verbatim>\<open>invalid payment dest\<close> and no
  quote; if it gives 33 bytes, the call returns the quote with these bytes as payment
  destination.
\<close>

theorem quote_payment_dest:
  assumes "SwapServerClient.LoopOutQuote (server s) (WithTimeout ctx T now)
      \<lparr>ServerLoopOutQuoteRequest.Amt = amt,
       ServerLoopOutQuoteRequest.SwapPublicationDeadline = Unix t\<rparr> now = (Inr q, returned)"
  shows "(DecodeString (ServerLoopOutQuote.SwapPaymentDest q) = Inl e \<longrightarrow>
            GetLoopOutQuote T s ctx amt t now = ((None, Some (DecodeError e)), returned)) \<and>
         (DecodeString (ServerLoopOutQuote.SwapPaymentDest q) = Inr dest \<longrightarrow>
            length dest \<noteq> 33 \<longrightarrow>
            GetLoopOutQuote T s ctx amt t now =
              ((None, Some (InvalidPaymentDestinationError ''invalid payment dest'')),
               returned)) \<and>
         (DecodeString (ServerLoopOutQuote.SwapPaymentDest q) = Inr dest \<longrightarrow>
            length dest = 33 \<longrightarrow>
            GetLoopOutQuote T s ctx amt t now =
              ((Some \<lparr>LoopOutQuote.PrepayAmount = ServerLoopOutQuote.PrepayAmt q,
                      LoopOutQuote.SwapFee = ServerLoopOutQuote.SwapFee q,
                      LoopOutQuote.CltvDelta = ServerLoopOutQuote.CltvDelta q,
                      LoopOutQuote.SwapPaymentDest = dest\<rparr>,
                None), returned))"
  using assms by (simp add: GetLoopOutQuote_def Let_def copy_zero33_id)

text \<open>
  A destination with a character that is no hex digit, one of odd length, one of two
  bytes and one of 33 bytes.
\<close>

theorem quote_payment_dest_witness:
  "GetLoopOutQuote (30 * second) (client (answering ''0g'' key1)) Background 100000
     (Time 1600000000) 0 =
     ((None, Some (DecodeError (InvalidByteError CHR ''g''))), 0) \<and>
   GetLoopOutQuote (30 * second) (client (answering ''020'' key1)) Background 100000
     (Time 1600000000) 0 =
     ((None, Some (DecodeError ErrLength)), 0) \<and>
   GetLoopOutQuote (30 * second) (client (answering ''0203'' key1)) Background 100000
     (Time 1600000000) 0 =
     ((None, Some (InvalidPaymentDestinationError ''invalid payment dest'')), 0) \<and>
   GetLoopOutQuote (30 * second) (client (answering key1_hex key1)) Background 100000
     (Time 1600000000) 0 =
     ((Some \<lparr>LoopOutQuote.PrepayAmount = 1337, LoopOutQuote.SwapFee = 1250,
             LoopOutQuote.CltvDelta = 80, LoopOutQuote.SwapPaymentDest = key1\<rparr>,
       None), 0)"
proof -
  have a: "GetLoopOutQuote (30 * second) (client (answering ''0g'' key1)) Background 100000
      (Time 1600000000) 0 = ((None, Some (DecodeError (InvalidByteError CHR ''g''))), 0)"
    using quote_payment_dest [where s = "client (answering ''0g'' key1)" and ctx = Background
        and T = "30 * second" and now = 0 and returned = 0 and amt = 100000
        and t = "Time 1600000000"
        and q = "\<lparr>ServerLoopOutQuote.SwapPaymentDest = ''0g'', ServerLoopOutQuote.SwapFee = 1250,
          ServerLoopOutQuote.PrepayAmt = 1337, ServerLoopOutQuote.CltvDelta = 80\<rparr>"
        and e = "InvalidByteError CHR ''g''" and dest = "[]"]
    by (simp add: client_def answering_def fromHexChar_def)
  have b: "GetLoopOutQuote (30 * second) (client (answering ''020'' key1)) Background 100000
      (Time 1600000000) 0 = ((None, Some (DecodeError ErrLength)), 0)"
    using quote_payment_dest [where s = "client (answering ''020'' key1)" and ctx = Background
        and T = "30 * second" and now = 0 and returned = 0 and amt = 100000
        and t = "Time 1600000000"
        and q = "\<lparr>ServerLoopOutQuote.SwapPaymentDest = ''020'', ServerLoopOutQuote.SwapFee = 1250,
          ServerLoopOutQuote.PrepayAmt = 1337, ServerLoopOutQuote.CltvDelta = 80\<rparr>"
        and e = ErrLength and dest = "[]"]
    by (simp add: client_def answering_def fromHexChar_def)
  have c: "GetLoopOutQuote (30 * second) (client (answering ''0203'' key1)) Background 100000
      (Time 1600000000) 0 =
      ((None, Some (InvalidPaymentDestinationError ''invalid payment dest'')), 0)"
    using quote_payment_dest [where s = "client (answering ''0203'' key1)" and ctx = Background
        and T = "30 * second" and now = 0 and returned = 0 and amt = 100000
        and t = "Time 1600000000"
        and q = "\<lparr>ServerLoopOutQuote.SwapPaymentDest = ''0203'', ServerLoopOutQuote.SwapFee = 1250,
          ServerLoopOutQuote.PrepayAmt = 1337, ServerLoopOutQuote.CltvDelta = 80\<rparr>"
        and e = ErrLength and dest = "[2, 3]"]
    by (simp add: client_def answering_def fromHexChar_def)
  have d: "GetLoopOutQuote (30 * second) (client (answering key1_hex key1)) Background 100000
      (Time 1600000000) 0 =
      ((Some \<lparr>LoopOutQuote.PrepayAmount = 1337, LoopOutQuote.SwapFee = 1250,
              LoopOutQuote.CltvDelta = 80, LoopOutQuote.SwapPaymentDest = key1\<rparr>,
        None), 0)"
    using quote_payment_dest [where s = "client (answering key1_hex key1)" and ctx = Background
        and T = "30 * second" and now = 0 and returned = 0 and amt = 100000
        and t = "Time 1600000000"
        and q = "\<lparr>ServerLoopOutQuote.SwapPaymentDest = key1_hex, ServerLoopOutQuote.SwapFee = 1250,
          ServerLoopOutQuote.PrepayAmt = 1337, ServerLoopOutQuote.CltvDelta = 80\<rparr>"
        and e = ErrLength and dest = key1]
    by (simp add: client_def answering_def key1_hex_Decode key1_fmt)
  from a b c d show ?thesis by simp
qed

subsection \<open>C4: a quote's payment destination is not checked against the curve\<close>

text \<open>
  C4. When the RPC of GetLoopOutQuote succeeds and the payment destination hex-decodes to
  33 bytes, the call returns the quote with exactly these bytes, whatever
  \<^verbatim>\<open>ParsePubKey\<close> would say about them: the hypotheses do not mention the curve.
\<close>

theorem quote_dest_not_validated:
  assumes "SwapServerClient.LoopOutQuote (server s) (WithTimeout ctx T now)
      \<lparr>ServerLoopOutQuoteRequest.Amt = amt,
       ServerLoopOutQuoteRequest.SwapPublicationDeadline = Unix t\<rparr> now = (Inr q, returned)"
    and "DecodeString (ServerLoopOutQuote.SwapPaymentDest q) = Inr dest"
    and "length dest = 33"
  shows "snd (fst (GetLoopOutQuote T s ctx amt t now)) = None \<and>
         map_option LoopOutQuote.SwapPaymentDest (fst (fst (GetLoopOutQuote T s ctx amt t now))) =
           Some dest"
  using assms by (simp add: GetLoopOutQuote_def Let_def copy_zero33_id)

text \<open>
  Two destinations: 33 zero bytes, which \<^verbatim>\<open>ParsePubKey\<close> rejects for their first
  byte, and \<open>02 00 \<dots> 00\<close>. The quote call returns each of them.
\<close>

theorem quote_dest_not_validated_witness:
  "ParsePubKey zero33 = Inl ''invalid magic in compressed pubkey string: 0'' \<and>
   GetLoopOutQuote (30 * second) (client (answering zero33_hex key1)) Background 100000
     (Time 1600000000) 0 =
     ((Some \<lparr>LoopOutQuote.PrepayAmount = 1337, LoopOutQuote.SwapFee = 1250,
             LoopOutQuote.CltvDelta = 80, LoopOutQuote.SwapPaymentDest = zero33\<rparr>,
       None), 0) \<and>
   map_option LoopOutQuote.SwapPaymentDest
     (fst (fst (GetLoopOutQuote (30 * second) (client (answering prefix02_hex key1)) Background
        100000 (Time 1600000000) 0))) =
     Some (0x02 # replicate 32 0)"
proof -
  have a: "snd (fst (GetLoopOutQuote (30 * second) (client (answering zero33_hex key1))
        Background 100000 (Time 1600000000) 0)) = None \<and>
      map_option LoopOutQuote.SwapPaymentDest
        (fst (fst (GetLoopOutQuote (30 * second) (client (answering zero33_hex key1))
           Background 100000 (Time 1600000000) 0))) = Some zero33"
    using quote_dest_not_validated [where s = "client (answering zero33_hex key1)"
        and ctx = Background and T = "30 * second" and now = 0 and returned = 0
        and amt = 100000 and t = "Time 1600000000"
        and q = "\<lparr>ServerLoopOutQuote.SwapPaymentDest = zero33_hex,
          ServerLoopOutQuote.SwapFee = 1250,
          ServerLoopOutQuote.PrepayAmt = 1337, ServerLoopOutQuote.CltvDelta = 80\<rparr>"
        and dest = zero33]
    by (simp add: client_def answering_def zero33_hex_Decode length_zero33)
  have a': "GetLoopOutQuote (30 * second) (client (answering zero33_hex key1)) Background
      100000 (Time 1600000000) 0 =
      ((Some \<lparr>LoopOutQuote.PrepayAmount = 1337, LoopOutQuote.SwapFee = 1250,
              LoopOutQuote.CltvDelta = 80, LoopOutQuote.SwapPaymentDest = zero33\<rparr>,
        None), 0)"
    by (simp add: GetLoopOutQuote_def client_def answering_def zero33_hex_Decode length_zero33
        copy_zero33_id)
  have c: "map_option LoopOutQuote.SwapPaymentDest
      (fst (fst (GetLoopOutQuote (30 * second) (client (answering prefix02_hex key1))
         Background 100000 (Time 1600000000) 0))) = Some (0x02 # replicate 32 0)"
    using quote_dest_not_validated [where s = "client (answering prefix02_hex key1)"
        and ctx = Background and T = "30 * second" and now = 0 and returned = 0
        and amt = 100000 and t = "Time 1600000000"
        and q = "\<lparr>ServerLoopOutQuote.SwapPaymentDest = prefix02_hex,
          ServerLoopOutQuote.SwapFee = 1250,
          ServerLoopOutQuote.PrepayAmt = 1337, ServerLoopOutQuote.CltvDelta = 80\<rparr>"
        and dest = "0x02 # replicate 32 0"]
    by (simp add: client_def answering_def prefix02_hex_Decode)
  from a a' c zero33_Parse show ?thesis
    by simp
qed

subsection \<open>C1: a key of another length than 33 is not rejected\<close>

text \<open>
  C1. The validation of the server's key accepts every valid compressed key of 33 bytes
  and rejects every other byte string, in particular every one whose length is not 33.
  The creation calls do not do this: they copy the key of the response into a 33-byte
  array without looking at its length and validate the array. Here the server returns 34
  bytes, a valid key followed by the byte \<open>ff\<close>. \<^verbatim>\<open>ParsePubKey\<close> rejects these 34
  bytes for their length, and both creation calls return a response, with the first 33
  bytes as key, and no error.
\<close>

theorem server_key_length_not_checked:
  "length (key1 @ [0xff]) = 34 \<and>
   ParsePubKey (key1 @ [0xff]) = Inl ''invalid pub key length 34'' \<and>
   NewLoopOutSwap (30 * second) (client (answering zero33_hex (key1 @ [0xff]))) Background
     (replicate 32 7) 100000 key1 (Time 1600000000) 0 =
     ((Some \<lparr>swapInvoice = ''lnbc1swap'', prepayInvoice = ''lnbc1prepay'', senderKey = key1,
             newLoopOutResponse.expiry = 600\<rparr>,
       None), 0) \<and>
   NewLoopInSwap (30 * second) (client (answering zero33_hex (key1 @ [0xff]))) Background
     (replicate 32 7) 100000 key1 ''lnbc1invoice'' 0 =
     ((Some \<lparr>receiverKey = key1, newLoopInResponse.expiry = 700\<rparr>, None), 0)"
  by (simp add: NewLoopOutSwap_def NewLoopInSwap_def client_def answering_def Let_def
      copy_zero33_append key1_fmt key1_Parse key1_34_Parse)

subsection \<open>C2: a returned key that does not parse, and no error\<close>

text \<open>
  C2. When the RPC of a creation call succeeds and the key the server returned fails the
  parsing, the call returns the error of an invalid key and no response. The creation
  calls parse the 33-byte array the key was copied into, not the key that was returned.
  Here the server returns 35 bytes, a valid key followed by the bytes \<open>00 01\<close>: parsing
  the returned key fails, and both creation calls return a nil error and a response.
\<close>

theorem unparsable_key_without_error:
  "ParsePubKey (key1 @ [0x00, 0x01]) = Inl ''invalid pub key length 35'' \<and>
   snd (fst (NewLoopOutSwap (30 * second) (client (answering zero33_hex (key1 @ [0x00, 0x01])))
          Background (replicate 32 7) 100000 key1 (Time 1600000000) 0)) = None \<and>
   map_option senderKey
     (fst (fst (NewLoopOutSwap (30 * second)
        (client (answering zero33_hex (key1 @ [0x00, 0x01]))) Background (replicate 32 7)
        100000 key1 (Time 1600000000) 0))) = Some key1 \<and>
   snd (fst (NewLoopInSwap (30 * second) (client (answering zero33_hex (key1 @ [0x00, 0x01])))
          Background (replicate 32 7) 100000 key1 ''lnbc1invoice'' 0)) = None \<and>
   map_option receiverKey
     (fst (fst (NewLoopInSwap (30 * second)
        (client (answering zero33_hex (key1 @ [0x00, 0x01]))) Background (replicate 32 7)
        100000 key1 ''lnbc1invoice'' 0))) = Some key1"
  by (simp add: NewLoopOutSwap_def NewLoopInSwap_def client_def answering_def Let_def
      copy_zero33_append key1_fmt key1_Parse key1_35_Parse)

subsection \<open>C7: the deadline of the call\<close>



subsection \<open>C5: the transport mode\<close>

text \<open>
  C5. The options the channel is dialed with are decided by the insecure flag and the
  certificate path, the first matching case winning. With the flag set they are the
  interceptor and \<^verbatim>\<open>WithInsecure\<close>, whatever the path. With the flag unset and a
  path that is not empty they are the interceptor and the credentials loaded from that
  path (if loading succeeds). With the flag unset and the empty path they are the
  interceptor and the default credentials of \<^verbatim>\<open>credentials.NewTLS(&tls.Config{})\<close>.
  In each case the address is dialed once, with these options.
\<close>

theorem transport_mode:
  "getSwapServerConn g address True tlsPath i =
     (dial g address [WithUnaryInterceptor i, WithInsecure],
      [CallDial address [WithUnaryInterceptor i, WithInsecure]]) \<and>
   (tlsPath \<noteq> '''' \<longrightarrow> NewClientTLSFromFile g tlsPath '''' = Inr creds \<longrightarrow>
    getSwapServerConn g address False tlsPath i =
      (dial g address [WithUnaryInterceptor i, WithTransportCredentials creds],
       [CallNewClientTLSFromFile tlsPath '''',
        CallDial address [WithUnaryInterceptor i, WithTransportCredentials creds]])) \<and>
   getSwapServerConn g address False '''' i =
     (dial g address
        [WithUnaryInterceptor i, WithTransportCredentials (NewTLS g tls_Config_zero)],
      [CallDial address
         [WithUnaryInterceptor i, WithTransportCredentials (NewTLS g tls_Config_zero)]])"
  by (simp add: getSwapServerConn_def Let_def)

text \<open>
  The three modes in the environment \<open>env\<close>; with the flag set, the path of the existing
  certificate is ignored.
\<close>

theorem transport_mode_witness:
  "getSwapServerConn env ''swap.lightning.today:11009'' True ''/home/loop/tls.cert''
     (NewInterceptor () () 30) =
     ((Some (''swap.lightning.today:11009'',
             [WithUnaryInterceptor (NewInterceptor () () 30), WithInsecure]), None),
      [CallDial ''swap.lightning.today:11009''
         [WithUnaryInterceptor (NewInterceptor () () 30), WithInsecure]]) \<and>
   getSwapServerConn env ''swap.lightning.today:11009'' False ''/home/loop/tls.cert''
     (NewInterceptor () () 30) =
     ((Some (''swap.lightning.today:11009'',
             [WithUnaryInterceptor (NewInterceptor () () 30),
              WithTransportCredentials ''pinned: /home/loop/tls.cert'']), None),
      [CallNewClientTLSFromFile ''/home/loop/tls.cert'' '''',
       CallDial ''swap.lightning.today:11009''
         [WithUnaryInterceptor (NewInterceptor () () 30),
          WithTransportCredentials ''pinned: /home/loop/tls.cert'']]) \<and>
   getSwapServerConn env ''swap.lightning.today:11009'' False '''' (NewInterceptor () () 30) =
     ((Some (''swap.lightning.today:11009'',
             [WithUnaryInterceptor (NewInterceptor () () 30),
              WithTransportCredentials ''system roots'']), None),
      [CallDial ''swap.lightning.today:11009''
         [WithUnaryInterceptor (NewInterceptor () () 30),
          WithTransportCredentials ''system roots'']])"
proof -
  have a: "getSwapServerConn env ''swap.lightning.today:11009'' True ''/home/loop/tls.cert''
      (NewInterceptor () () 30) =
      ((Some (''swap.lightning.today:11009'',
              [WithUnaryInterceptor (NewInterceptor () () 30), WithInsecure]), None),
       [CallDial ''swap.lightning.today:11009''
          [WithUnaryInterceptor (NewInterceptor () () 30), WithInsecure]])"
    using transport_mode [of env "''swap.lightning.today:11009''" "''/home/loop/tls.cert''"
        "NewInterceptor () () 30" "''pinned: /home/loop/tls.cert''"]
    by (simp add: dial_def env_def)
  have b: "getSwapServerConn env ''swap.lightning.today:11009'' False ''/home/loop/tls.cert''
      (NewInterceptor () () 30) =
      ((Some (''swap.lightning.today:11009'',
              [WithUnaryInterceptor (NewInterceptor () () 30),
               WithTransportCredentials ''pinned: /home/loop/tls.cert'']), None),
       [CallNewClientTLSFromFile ''/home/loop/tls.cert'' '''',
        CallDial ''swap.lightning.today:11009''
          [WithUnaryInterceptor (NewInterceptor () () 30),
           WithTransportCredentials ''pinned: /home/loop/tls.cert'']])"
    using transport_mode [of env "''swap.lightning.today:11009''" "''/home/loop/tls.cert''"
        "NewInterceptor () () 30" "''pinned: /home/loop/tls.cert''"]
    by (simp add: dial_def env_def)
  have c: "getSwapServerConn env ''swap.lightning.today:11009'' False ''''
      (NewInterceptor () () 30) =
      ((Some (''swap.lightning.today:11009'',
              [WithUnaryInterceptor (NewInterceptor () () 30),
               WithTransportCredentials ''system roots'']), None),
       [CallDial ''swap.lightning.today:11009''
          [WithUnaryInterceptor (NewInterceptor () () 30),
           WithTransportCredentials ''system roots'']])"
    using transport_mode [of env "''swap.lightning.today:11009''" "''/home/loop/tls.cert''"
        "NewInterceptor () () 30" "''pinned: /home/loop/tls.cert''"]
    by (simp add: dial_def env_def)
  from a b c show ?thesis by simp
qed

subsection \<open>C6: a certificate that cannot be loaded\<close>

text \<open>
  C6. With the insecure flag unset and a certificate path that is not empty and whose
  file cannot be loaded, the construction of the client returns no client and the error
  of the loading, and it makes no call to \<^verbatim>\<open>grpc.Dial\<close>: reading the file is the only
  call it makes.
\<close>

theorem certificate_load_failure:
  assumes "tlsPath \<noteq> ''''" and "NewClientTLSFromFile g tlsPath '''' = Inl err"
  shows "newSwapServerClient g serverRPCTimeout address False tlsPath lsatStore lnd =
           ((None, Some (CertificateLoadError err)),
            [CallNewClientTLSFromFile tlsPath '''']) \<and>
         filter isDial
           (snd (newSwapServerClient g serverRPCTimeout address False tlsPath lsatStore lnd)) =
           []"
  using assms by (simp add: newSwapServerClient_def getSwapServerConn_def Let_def)

theorem certificate_load_failure_witness:
  "newSwapServerClient env 30 ''swap.lightning.today:11009'' False ''/nonexistent.cert'' () () =
     ((None, Some (CertificateLoadError
         ''open /nonexistent.cert: no such file or directory'')),
      [CallNewClientTLSFromFile ''/nonexistent.cert'' ''''])"
  using certificate_load_failure [of "''/nonexistent.cert''" env
      "''open /nonexistent.cert: no such file or directory''" 30
      "''swap.lightning.today:11009''" "()" "()"]
  by (simp add: env_def)

end
